theory Spec2Isabelle
  imports Complex_Main "HOL-Library.Word"
begin

section \<open>Capture encoding: float samples to 16-bit PCM\<close>

text \<open>
  All three front-ends convert a captured frame with the same loop
  (\<^verbatim>\<open>part_000\<close> lines 264-269 and 621-626, \<^verbatim>\<open>part_001\<close> lines 243-248):
  \<^verbatim>\<open>
  const inputData = e.inputBuffer.getChannelData(0);
  const l = inputData.length;
  const int16 = new Int16Array(l);
  for (let i = 0; i < l; i++) {
    int16[i] = inputData[i] * 32768;
  }
  \<close>
  \<^verbatim>\<open>inputData\<close> is a \<^verbatim>\<open>Float32Array\<close>: an element is a finite binary fraction, an
  infinity or NaN. The product with \<open>32768 = 2^15\<close> is a JavaScript number; scaling a
  finite 32-bit float by a power of two is exact in double precision, so the finite case
  is the rational product. The store into the \<^verbatim>\<open>Int16Array\<close> applies the language's
  \<^verbatim>\<open>ToInt16\<close> conversion: NaN and the infinities become 0, any other number is
  truncated towards zero and reduced modulo \<open>2^16\<close> into \<open>-32768 .. 32767\<close>.
\<close>

datatype number = Finite rat | PosInfinity | NegInfinity | NaN

definition times32768 :: "number \<Rightarrow> number" where
  "times32768 x =
     (case x of
        Finite q \<Rightarrow> Finite (q * 32768)
      | PosInfinity \<Rightarrow> PosInfinity
      | NegInfinity \<Rightarrow> NegInfinity
      | NaN \<Rightarrow> NaN)"

definition truncateNumber :: "rat \<Rightarrow> int" where
  "truncateNumber q = (if q < 0 then \<lceil>q\<rceil> else \<lfloor>q\<rfloor>)"

definition ToInt16 :: "number \<Rightarrow> int" where
  "ToInt16 x =
     (case x of
        Finite q \<Rightarrow>
          (let int16bit = truncateNumber q mod 65536
           in if int16bit \<ge> 32768 then int16bit - 65536 else int16bit)
      | PosInfinity \<Rightarrow> 0
      | NegInfinity \<Rightarrow> 0
      | NaN \<Rightarrow> 0)"

definition sampleToInt16 :: "number \<Rightarrow> int" where
  "sampleToInt16 x = ToInt16 (times32768 x)"

definition convertFrame :: "number list \<Rightarrow> int list" where
  "convertFrame inputData = map sampleToInt16 inputData"

text \<open>
  The conversion as the specification words it: \<open>round(sample * 32768)\<close>, clamped to
  the legal int16 range. It is stated here only to be compared with \<^const>\<open>sampleToInt16\<close>.
\<close>

definition spec_sampleToInt16 :: "rat \<Rightarrow> int" where
  "spec_sampleToInt16 q = max (- 32768) (min 32767 (round (q * 32768)))"

section \<open>Data model\<close>

text \<open>
  The repository holds three near-identical front-ends, each one \<^verbatim>\<open>App\<close> component:
  \<^verbatim>\<open>part_000\<close> lines 1-486 (the one with the closing guard), \<^verbatim>\<open>part_000\<close> lines 488-843
  and \<^verbatim>\<open>part_001\<close>. The definitions below follow the first; those with the suffix
  \<open>_p1\<close> follow \<^verbatim>\<open>part_001\<close>. Where the two share a piece of code verbatim, the
  definition is shared.
\<close>

subsection \<open>Strings\<close>

text \<open>
  A JavaScript string is a sequence of UTF-16 code units. \<^verbatim>\<open>String.prototype.trim\<close> strips
  the code units of the language's WhiteSpace and LineTerminator productions from both
  ends; a string is truthy when it is not empty.
\<close>

type_synonym jsstring = "16 word list"

definition js :: "string \<Rightarrow> jsstring" where
  "js s = map of_char s"

definition isWhiteSpace :: "16 word \<Rightarrow> bool" where
  "isWhiteSpace c \<longleftrightarrow>
     c \<in> {0x0009, 0x000A, 0x000B, 0x000C, 0x000D, 0x0020, 0x00A0, 0x1680, 0x2028, 0x2029,
          0x202F, 0x205F, 0x3000, 0xFEFF}
     \<or> (0x2000 \<le> c \<and> c \<le> 0x200A)"

definition trim :: "jsstring \<Rightarrow> jsstring" where
  "trim s = rev (dropWhile isWhiteSpace (rev (dropWhile isWhiteSpace s)))"

subsection \<open>Types of \<^verbatim>\<open>types.ts\<close> and of the inbound message\<close>

datatype AppStatus = IDLE | CONNECTING | CONNECTED | ERROR

datatype role = User | Agent

text \<open>\<^verbatim>\<open>TranscriptionEntry\<close>; the timestamp is a \<^verbatim>\<open>Date\<close>, in milliseconds.\<close>

record TranscriptionEntry =
  entry_type :: role
  entry_text :: jsstring
  entry_timestamp :: nat

text \<open>
  \<^verbatim>\<open>LiveServerMessage\<close> is declared by the connection library, not by the repository.
  The handlers read five things of it, each through optional chaining:
  \<^verbatim>\<open>serverContent?.modelTurn?.parts\<close> (here the empty list when a link is missing),
  \<^verbatim>\<open>interrupted\<close>, \<^verbatim>\<open>inputTranscription\<close> and \<^verbatim>\<open>outputTranscription\<close> (here the
  \<^verbatim>\<open>text\<close> delta of the object when the object is there) and \<^verbatim>\<open>turnComplete\<close>.
\<close>

datatype InlineData = InlineData (data: "jsstring option")

datatype Part = Part (inlineData: "InlineData option")

record LiveServerMessage =
  parts :: "Part list"
  interrupted :: bool
  inputTranscription :: "jsstring option"
  outputTranscription :: "jsstring option"
  turnComplete :: bool

subsection \<open>Objects the references point to\<close>

text \<open>
  The session promise returned by \<^verbatim>\<open>ai.live.connect\<close> is pending until the connection
  is established. A callback given to \<^verbatim>\<open>then\<close> on a fulfilled promise runs as a
  microtask, right after the synchronous code that registered it and before any other
  event; on a pending promise it waits for the fulfilment; on a rejected one it never runs.
\<close>

datatype settlement = Pending | Fulfilled | Rejected

text \<open>\<^verbatim>\<open>MediaRecorder.state\<close>; the code never pauses a recorder.\<close>

datatype RecordingState = Inactive | Recording

text \<open>
  The packet handed to \<^verbatim>\<open>sendRealtimeInput\<close>. Its \<^verbatim>\<open>data\<close> is
  \<^verbatim>\<open>encode(new Uint8Array(int16.buffer))\<close>; \<^verbatim>\<open>encode\<close> is not part of the sources,
  so the packet keeps the \<^verbatim>\<open>Int16Array\<close> it is the encoding of.
\<close>

datatype Media = Media (int16: "int list") (mimeType: string)

text \<open>
  The three callbacks the code registers on the session promise: the close of
  \<^verbatim>\<open>handleStop\<close>, and the send of \<^verbatim>\<open>onaudioprocess\<close> in its two versions (the one of
  \<^verbatim>\<open>part_001\<close> does not look at the closing guard).
\<close>

datatype callback = CloseCallback | SendCallback Media | SendCallback_p1 Media

datatype node = ProcessorNode | SourceNode | MicToMixerNode

text \<open>
  A recorded segment and the final recording are \<^verbatim>\<open>Blob\<close>s: byte sequences.
  \<^verbatim>\<open>new Blob(chunks)\<close> concatenates.
\<close>

type_synonym blob = "8 word list"

text \<open>
  What the handlers do to the world outside the component state is kept in a trace, in the
  order of execution: the calls of the React state setters, the writes of the playback
  clock, and the calls on the connection, the recorder, the audio nodes, the device tracks
  and the playback sources. \<open>Deferred\<close> marks a callback registered on a promise that is
  still pending. Times are JavaScript numbers; the model uses only their order, \<open>max\<close>,
  \<open>+\<close> and \<open>0\<close>, and leaves the type \<open>'t\<close> of times open.
\<close>

datatype 't action =
    SetStatus AppStatus
  | SetIsProcessing bool
  | SetTranscriptions TranscriptionEntry
  | SetIsMuted bool
  | SetErrorMessage "string option"
  | SetHasAudioData bool
  | NextStartWrite 't
  | SessionClose
  | SendRealtimeInput Media
  | Deferred callback
  | RecorderStart
  | RecorderStop
  | Disconnect node
  | TrackStop nat
  | SourceStart nat 't
  | SourceStop nat

text \<open>
  \<^verbatim>\<open>processor.onaudioprocess\<close> is a closure created inside \<^verbatim>\<open>handleStart\<close>. It reads
  the references through \<^verbatim>\<open>.current\<close>, so it sees their latest value; but \<^verbatim>\<open>isMuted\<close>
  is the constant of the render in which \<^verbatim>\<open>handleStart\<close> was invoked, and a later
  \<^verbatim>\<open>setIsMuted\<close> gives a new constant to the next render without changing the one the
  closure holds. The processor node therefore carries the value captured for its handler.
\<close>

record ScriptProcessorNode =
  closure_isMuted :: bool

record TranscriptionBuffer =
  user :: jsstring
  agent :: jsstring

subsection \<open>The component state\<close>

text \<open>
  The \<^verbatim>\<open>useState\<close> values and the \<^verbatim>\<open>useRef\<close> cells of \<^verbatim>\<open>App\<close>. A reference to an
  object without state of interest is a boolean (\<open>True\<close> when not \<^verbatim>\<open>null\<close>); the stream
  is the list of its tracks; the set of active sources is a list without repetition in
  insertion order, which is the order \<^verbatim>\<open>forEach\<close> visits a \<^verbatim>\<open>Set\<close> in; sources are
  numbered as \<^verbatim>\<open>createBufferSource\<close> creates them. \<^verbatim>\<open>isClosingRef\<close> and
  \<^verbatim>\<open>micToMixerNodeRef\<close> exist in \<^verbatim>\<open>part_000\<close> only: the definitions for \<^verbatim>\<open>part_001\<close>
  never touch them.
\<close>

record 't session =
  status :: AppStatus
  isProcessing :: bool
  transcriptions :: "TranscriptionEntry list"
  isMuted :: bool
  errorMessage :: "string option"
  hasAudioData :: bool
  audioContextRef :: bool
  outputAudioContextRef :: bool
  sessionPromiseRef :: "settlement option"
  nextStartTimeRef :: 't
  activeSourcesRef :: "nat list"
  streamRef :: "nat list option"
  isClosingRef :: bool
  recorderRef :: "RecordingState option"
  recordedChunksRef :: "blob list"
  mixerRef :: bool
  audioUrlRef :: "blob option"
  sourceNodeRef :: bool
  processorNodeRef :: "ScriptProcessorNode option"
  micToMixerNodeRef :: bool
  transcriptionBufferRef :: TranscriptionBuffer
  nextSourceId :: nat
  trace :: "'t action list"

definition init :: "('t::zero) session" where
  "init = \<lparr> status = IDLE, isProcessing = False, transcriptions = [], isMuted = False,
            errorMessage = None, hasAudioData = False, audioContextRef = False,
            outputAudioContextRef = False, sessionPromiseRef = None, nextStartTimeRef = 0,
            activeSourcesRef = [], streamRef = None, isClosingRef = False, recorderRef = None,
            recordedChunksRef = [], mixerRef = False, audioUrlRef = None,
            sourceNodeRef = False, processorNodeRef = None, micToMixerNodeRef = False,
            transcriptionBufferRef = \<lparr> user = [], agent = [] \<rparr>,
            nextSourceId = 0, trace = [] \<rparr>"

subsection \<open>State setters and the trace\<close>

definition emit :: "'t action \<Rightarrow> 't session \<Rightarrow> 't session" where
  "emit a s = s\<lparr> trace := trace s @ [a] \<rparr>"

definition setStatus :: "AppStatus \<Rightarrow> 't session \<Rightarrow> 't session" where
  "setStatus v s = emit (SetStatus v) (s\<lparr> status := v \<rparr>)"

definition setIsProcessing :: "bool \<Rightarrow> 't session \<Rightarrow> 't session" where
  "setIsProcessing v s = emit (SetIsProcessing v) (s\<lparr> isProcessing := v \<rparr>)"

definition setErrorMessage :: "string option \<Rightarrow> 't session \<Rightarrow> 't session" where
  "setErrorMessage v s = emit (SetErrorMessage v) (s\<lparr> errorMessage := v \<rparr>)"

definition setHasAudioData :: "bool \<Rightarrow> 't session \<Rightarrow> 't session" where
  "setHasAudioData v s = emit (SetHasAudioData v) (s\<lparr> hasAudioData := v \<rparr>)"

definition setIsMuted :: "bool \<Rightarrow> 't session \<Rightarrow> 't session" where
  "setIsMuted v s = emit (SetIsMuted v) (s\<lparr> isMuted := v \<rparr>)"

text \<open>\<^verbatim>\<open>setTranscriptions(prev => [...prev, entry])\<close>\<close>

definition setTranscriptions :: "TranscriptionEntry \<Rightarrow> 't session \<Rightarrow> 't session" where
  "setTranscriptions entry s =
     emit (SetTranscriptions entry) (s\<lparr> transcriptions := transcriptions s @ [entry] \<rparr>)"

definition writeNextStartTime :: "'t \<Rightarrow> 't session \<Rightarrow> 't session" where
  "writeNextStartTime t s = emit (NextStartWrite t) (s\<lparr> nextStartTimeRef := t \<rparr>)"

section \<open>Session lifecycle\<close>

subsection \<open>Callbacks on the session promise\<close>

text \<open>
  The bodies of the three callbacks:
  \<^verbatim>\<open>session => { try { session.close(); } catch(e) {} }\<close>,
  \<^verbatim>\<open>session => { if (!isClosingRef.current && session) session.sendRealtimeInput({ media: pcmBlob }); }\<close>
  and \<^verbatim>\<open>session => { session.sendRealtimeInput({ media: pcmBlob }); }\<close>.
  The session a fulfilled promise delivers is an object, hence truthy.
\<close>

definition runCallback :: "callback \<Rightarrow> 't session \<Rightarrow> 't session" where
  "runCallback cb s =
     (case cb of
        CloseCallback \<Rightarrow> emit SessionClose s
      | SendCallback pcmBlob \<Rightarrow>
          (if \<not> isClosingRef s then emit (SendRealtimeInput pcmBlob) s else s)
      | SendCallback_p1 pcmBlob \<Rightarrow> emit (SendRealtimeInput pcmBlob) s)"

definition promiseThen :: "settlement \<Rightarrow> callback \<Rightarrow> 't session \<Rightarrow> 't session" where
  "promiseThen p cb s =
     (case p of
        Fulfilled \<Rightarrow> runCallback cb s
      | Pending \<Rightarrow> emit (Deferred cb) s
      | Rejected \<Rightarrow> s)"

text \<open>The connection is established: the promise the reference holds is fulfilled.\<close>

definition sessionFulfilled :: "'t session \<Rightarrow> 't session" where
  "sessionFulfilled s =
     (if sessionPromiseRef s = Some Pending then s\<lparr> sessionPromiseRef := Some Fulfilled \<rparr>
      else s)"

subsection \<open>Teardown steps\<close>

text \<open>
  \<^verbatim>\<open>if (recorderRef.current && recorderRef.current.state !== 'inactive') recorderRef.current.stop();\<close>
  The call makes the recorder inactive at once; its \<^verbatim>\<open>dataavailable\<close> and \<^verbatim>\<open>stop\<close>
  events come later. The reference itself is not cleared.
\<close>

definition stopRecorder :: "'t session \<Rightarrow> 't session" where
  "stopRecorder s =
     (if recorderRef s = Some Recording
      then emit RecorderStop (s\<lparr> recorderRef := Some Inactive \<rparr>)
      else s)"

definition disconnectProcessor :: "'t session \<Rightarrow> 't session" where
  "disconnectProcessor s =
     (if processorNodeRef s \<noteq> None
      then (emit (Disconnect ProcessorNode) s)\<lparr> processorNodeRef := None \<rparr>
      else s)"

definition disconnectSource :: "'t session \<Rightarrow> 't session" where
  "disconnectSource s =
     (if sourceNodeRef s
      then (emit (Disconnect SourceNode) s)\<lparr> sourceNodeRef := False \<rparr>
      else s)"

definition disconnectMicToMixer :: "'t session \<Rightarrow> 't session" where
  "disconnectMicToMixer s =
     (if micToMixerNodeRef s
      then (emit (Disconnect MicToMixerNode) s)\<lparr> micToMixerNodeRef := False \<rparr>
      else s)"

text \<open>\<^verbatim>\<open>streamRef.current.getTracks().forEach(track => track.stop()); streamRef.current = null;\<close>\<close>

definition stopTracks :: "'t session \<Rightarrow> 't session" where
  "stopTracks s =
     (case streamRef s of
        None \<Rightarrow> s
      | Some tracks \<Rightarrow> s\<lparr> streamRef := None, trace := trace s @ map TrackStop tracks \<rparr>)"

text \<open>
  \<^verbatim>\<open>activeSourcesRef.current.forEach(source => { try { source.stop(); } catch(e) {} });
  activeSourcesRef.current.clear();\<close>
\<close>

definition stopSources :: "'t session \<Rightarrow> 't session" where
  "stopSources s =
     s\<lparr> activeSourcesRef := [], trace := trace s @ map SourceStop (activeSourcesRef s) \<rparr>"

subsection \<open>\<^verbatim>\<open>handleStop\<close>\<close>

text \<open>
  \<^verbatim>\<open>part_000\<close>, lines 73-122. The close callback is registered on the promise before the
  recorder is stopped, but on a fulfilled promise it runs as a microtask after the body
  of \<^verbatim>\<open>handleStop\<close>: it is the last step here. The guard is cleared by a timer 500 ms
  later, which is the event \<open>closingTimeout\<close>.
\<close>

definition handleStop :: "bool \<Rightarrow> ('t::zero) session \<Rightarrow> 't session" where
  "handleStop errorOccurred s =
     (if isClosingRef s then s
      else
        let s1 = s\<lparr> isClosingRef := True \<rparr>;
            s2 = setStatus (if errorOccurred then ERROR else IDLE) s1;
            p = sessionPromiseRef s2;
            s3 = s2\<lparr> sessionPromiseRef := None \<rparr>;
            s4 = stopRecorder s3;
            s5 = disconnectProcessor s4;
            s6 = disconnectSource s5;
            s7 = disconnectMicToMixer s6;
            s8 = stopTracks s7;
            s9 = stopSources s8;
            s10 = writeNextStartTime 0 s9;
            s11 = setIsProcessing False s10
        in (case p of None \<Rightarrow> s11 | Some promise \<Rightarrow> promiseThen promise CloseCallback s11))"

definition closingTimeout :: "'t session \<Rightarrow> 't session" where
  "closingTimeout s = s\<lparr> isClosingRef := False \<rparr>"

text \<open>\<^verbatim>\<open>part_001\<close>, lines 90-119: no parameter, no guard, no mixer input node.\<close>

definition handleStop_p1 :: "('t::zero) session \<Rightarrow> 't session" where
  "handleStop_p1 s =
     (let p = sessionPromiseRef s;
          s1 = s\<lparr> sessionPromiseRef := None \<rparr>;
          s2 = stopRecorder s1;
          s3 = disconnectProcessor s2;
          s4 = disconnectSource s3;
          s5 = stopTracks s4;
          s6 = stopSources s5;
          s7 = writeNextStartTime 0 s6;
          s8 = setStatus IDLE s7;
          s9 = setIsProcessing False s8
      in (case p of None \<Rightarrow> s9 | Some promise \<Rightarrow> promiseThen promise CloseCallback s9))"

subsection \<open>\<^verbatim>\<open>handleStart\<close> and the connection callbacks\<close>

text \<open>
  \<^verbatim>\<open>handleStart\<close> is asynchronous: it waits for the two audio contexts to resume and for
  \<^verbatim>\<open>getUserMedia\<close>. The model runs it in one step, with the outcome of \<^verbatim>\<open>getUserMedia\<close>
  as an argument: the tracks of the stream, or \<open>None\<close> when the request is rejected and
  the \<^verbatim>\<open>catch\<close> block runs. The processor node gets the handler that closes over the
  \<^verbatim>\<open>isMuted\<close> of this invocation.
\<close>

definition handleStart :: "nat list option \<Rightarrow> 't session \<Rightarrow> 't session" where
  "handleStart getUserMedia s =
     (if isClosingRef s then s
      else
        let s1 = setErrorMessage None s;
            s2 = setHasAudioData False s1;
            s3 = s2\<lparr> audioUrlRef := None, recordedChunksRef := [] \<rparr>;
            s4 = setStatus CONNECTING s3;
            s5 = s4\<lparr> audioContextRef := True, outputAudioContextRef := True \<rparr>
        in (case getUserMedia of
              None \<Rightarrow>
                setStatus IDLE (setErrorMessage (Some ''System error. Check mic permissions.'') s5)
            | Some tracks \<Rightarrow>
                s5\<lparr> streamRef := Some tracks, mixerRef := True, micToMixerNodeRef := True,
                    sessionPromiseRef := Some Pending, sourceNodeRef := True,
                    processorNodeRef := Some \<lparr> closure_isMuted = isMuted s \<rparr> \<rparr>))"

definition handleStart_p1 :: "nat list option \<Rightarrow> 't session \<Rightarrow> 't session" where
  "handleStart_p1 getUserMedia s =
     (let s1 = setErrorMessage None s;
          s2 = setHasAudioData False s1;
          s3 = s2\<lparr> audioUrlRef := None, recordedChunksRef := [] \<rparr>;
          s4 = setStatus CONNECTING s3;
          s5 = s4\<lparr> audioContextRef := True, outputAudioContextRef := True \<rparr>
      in (case getUserMedia of
            None \<Rightarrow> setStatus IDLE (setErrorMessage (Some ''Microphone access failed.'') s5)
          | Some tracks \<Rightarrow>
              s5\<lparr> streamRef := Some tracks, mixerRef := True,
                  sessionPromiseRef := Some Pending, sourceNodeRef := True,
                  processorNodeRef := Some \<lparr> closure_isMuted = isMuted s \<rparr> \<rparr>))"

text \<open>The mute button: \<^verbatim>\<open>onClick={() => setIsMuted(!isMuted)}\<close>.\<close>

definition toggleMute :: "'t session \<Rightarrow> 't session" where
  "toggleMute s = setIsMuted (\<not> isMuted s) s"

definition onopen :: "'t session \<Rightarrow> 't session" where
  "onopen s =
     (let s1 = setStatus CONNECTED s;
          s2 = setErrorMessage None s1;
          s3 = emit RecorderStart s2
      in s3\<lparr> recorderRef := Some Recording \<rparr>)"

definition onopen_p1 :: "'t session \<Rightarrow> 't session" where
  "onopen_p1 s =
     (let s1 = setStatus CONNECTED s;
          s2 = emit RecorderStart s1
      in s2\<lparr> recorderRef := Some Recording \<rparr>)"

text \<open>
  \<^verbatim>\<open>part_000\<close>, lines 241-250:
  \<^verbatim>\<open>
  onerror: (e: any) => {
    console.error("Session Error Observed:", e);
    if (isClosingRef.current) return;
    setErrorMessage("Line unstable. Resetting connection...");
    handleStop(true);
  },
  onclose: (e: any) => {
    if (isClosingRef.current) return;
    handleStop();
  }
  \<close>
\<close>

definition onerror :: "('t::zero) session \<Rightarrow> 't session" where
  "onerror s =
     (if isClosingRef s then s
      else handleStop True (setErrorMessage (Some ''Line unstable. Resetting connection...'') s))"

definition onclose :: "('t::zero) session \<Rightarrow> 't session" where
  "onclose s = (if isClosingRef s then s else handleStop False s)"

text \<open>
  \<^verbatim>\<open>part_001\<close>, lines 224-229:
  \<^verbatim>\<open>
  onerror: (e) => {
    console.error("Session Error:", e);
    setErrorMessage("Network issue. Reconnecting...");
    handleStop();
  },
  onclose: () => handleStop()
  \<close>
\<close>

definition onerror_p1 :: "('t::zero) session \<Rightarrow> 't session" where
  "onerror_p1 s = handleStop_p1 (setErrorMessage (Some ''Network issue. Reconnecting...'') s)"

definition onclose_p1 :: "('t::zero) session \<Rightarrow> 't session" where
  "onclose_p1 s = handleStop_p1 s"

subsection \<open>Recording\<close>

text \<open>
  The two handlers of the recorder, the same in both files:
  \<^verbatim>\<open>
  recorder.ondataavailable = (e) => {
    if (e.data.size > 0) recordedChunksRef.current.push(e.data);
  };
  recorder.onstop = () => {
    const blob = new Blob(recordedChunksRef.current, { type: 'audio/webm' });
    audioUrlRef.current = URL.createObjectURL(blob);
    setHasAudioData(true);
  };
  \<close>
  The object URL stands for the blob it was created from.
\<close>

definition recorder_ondataavailable :: "blob \<Rightarrow> 't session \<Rightarrow> 't session" where
  "recorder_ondataavailable e_data s =
     (if length e_data > 0 then s\<lparr> recordedChunksRef := recordedChunksRef s @ [e_data] \<rparr>
      else s)"

definition recorder_onstop :: "'t session \<Rightarrow> 't session" where
  "recorder_onstop s =
     (let blob = concat (recordedChunksRef s);
          s1 = s\<lparr> audioUrlRef := Some blob \<rparr>
      in setHasAudioData True s1)"

section \<open>Capture: \<^verbatim>\<open>onaudioprocess\<close>\<close>

text \<open>
  \<^verbatim>\<open>part_000\<close>, lines 261-280:
  \<^verbatim>\<open>
  processor.onaudioprocess = (e) => {
    if (isMuted || isClosingRef.current || !sessionPromiseRef.current) return;
    ... int16 ...
    const pcmBlob = { data: encode(new Uint8Array(int16.buffer)), mimeType: 'audio/pcm;rate=16000' };
    sessionPromiseRef.current?.then((session) => {
      if (!isClosingRef.current && session) session.sendRealtimeInput({ media: pcmBlob });
    }).catch(() => {});
  };
  \<close>
  The first argument is the \<^verbatim>\<open>isMuted\<close> the closure holds.
\<close>

definition onaudioprocess :: "bool \<Rightarrow> number list \<Rightarrow> 't session \<Rightarrow> 't session" where
  "onaudioprocess isMuted_closure inputData s =
     (if isMuted_closure \<or> isClosingRef s \<or> sessionPromiseRef s = None then s
      else
        let pcmBlob = Media (convertFrame inputData) ''audio/pcm;rate=16000''
        in (case sessionPromiseRef s of
              None \<Rightarrow> s
            | Some promise \<Rightarrow> promiseThen promise (SendCallback pcmBlob) s))"

text \<open>
  \<^verbatim>\<open>part_001\<close>, lines 241-256:
  \<^verbatim>\<open>
  processor.onaudioprocess = (e) => {
    if (isMuted) return;
    ... int16 ...
    sessionPromiseRef.current?.then((session) => {
      session.sendRealtimeInput({ media: pcmBlob });
    });
  };
  \<close>
\<close>

definition onaudioprocess_p1 :: "bool \<Rightarrow> number list \<Rightarrow> 't session \<Rightarrow> 't session" where
  "onaudioprocess_p1 isMuted_closure inputData s =
     (if isMuted_closure then s
      else
        let pcmBlob = Media (convertFrame inputData) ''audio/pcm;rate=16000''
        in (case sessionPromiseRef s of
              None \<Rightarrow> s
            | Some promise \<Rightarrow> promiseThen promise (SendCallback_p1 pcmBlob) s))"

text \<open>
  The capture device delivers a frame: the processor node, while the component holds one,
  runs the handler installed on it.
\<close>

definition audioprocess :: "number list \<Rightarrow> 't session \<Rightarrow> 't session" where
  "audioprocess inputData s =
     (case processorNodeRef s of
        None \<Rightarrow> s
      | Some processor \<Rightarrow> onaudioprocess (closure_isMuted processor) inputData s)"

definition audioprocess_p1 :: "number list \<Rightarrow> 't session \<Rightarrow> 't session" where
  "audioprocess_p1 inputData s =
     (case processorNodeRef s of
        None \<Rightarrow> s
      | Some processor \<Rightarrow> onaudioprocess_p1 (closure_isMuted processor) inputData s)"

section \<open>Inbound messages: \<^verbatim>\<open>onmessage\<close>\<close>

text \<open>
  What a handler reads from its surroundings while it runs: \<^verbatim>\<open>ctx.currentTime\<close> when the
  message arrives, and the two \<^verbatim>\<open>new Date()\<close> of the transcript entries.
\<close>

record 't env =
  currentTime :: 't
  newDate_user :: nat
  newDate_agent :: nat

text \<open>
  The handler is an \<^verbatim>\<open>async\<close> function that awaits \<^verbatim>\<open>decodeAudioData\<close>. When the
  awaited promise is rejected the handler ends there, keeping the writes made so far;
  otherwise it returns after its last statement.
\<close>

datatype 's outcome = Returned 's | Threw 's

definition state_of :: "'s outcome \<Rightarrow> 's" where
  "state_of r = (case r of Returned s \<Rightarrow> s | Threw s \<Rightarrow> s)"

definition truthy :: "jsstring option \<Rightarrow> bool" where
  "truthy x = (case x of None \<Rightarrow> False | Some str \<Rightarrow> str \<noteq> [])"

text \<open>
  \<^verbatim>\<open>part_000\<close>, lines 195-196:
  \<^verbatim>\<open>
  const audioPart = message.serverContent?.modelTurn?.parts?.find(p => p.inlineData?.data);
  const base64Audio = audioPart?.inlineData?.data;
  \<close>
\<close>

definition base64Audio :: "LiveServerMessage \<Rightarrow> jsstring option" where
  "base64Audio message =
     (case find (\<lambda>p. case inlineData p of None \<Rightarrow> False | Some d \<Rightarrow> truthy (data d))
             (parts message) of
        None \<Rightarrow> None
      | Some audioPart \<Rightarrow>
          (case inlineData audioPart of None \<Rightarrow> None | Some d \<Rightarrow> data d))"

text \<open>
  \<^verbatim>\<open>part_001\<close>, line 181:
  \<^verbatim>\<open>
  const base64Audio = message.serverContent?.modelTurn?.parts?.find(p => p.inlineData)?.inlineData?.data;
  \<close>
\<close>

definition base64Audio_p1 :: "LiveServerMessage \<Rightarrow> jsstring option" where
  "base64Audio_p1 message =
     (case find (\<lambda>p. inlineData p \<noteq> None) (parts message) of
        None \<Rightarrow> None
      | Some audioPart \<Rightarrow>
          (case inlineData audioPart of None \<Rightarrow> None | Some d \<Rightarrow> data d))"

text \<open>\<^verbatim>\<open>activeSourcesRef.current.add(source)\<close> and the \<^verbatim>\<open>onended\<close> handler of a source.\<close>

definition addSource :: "nat \<Rightarrow> 't session \<Rightarrow> 't session" where
  "addSource source s =
     (if source \<in> set (activeSourcesRef s) then s
      else s\<lparr> activeSourcesRef := activeSourcesRef s @ [source] \<rparr>)"

definition source_onended :: "nat \<Rightarrow> 't session \<Rightarrow> 't session" where
  "source_onended source s = s\<lparr> activeSourcesRef := removeAll source (activeSourcesRef s) \<rparr>"

text \<open>
  \<^verbatim>\<open>part_000\<close>, lines 198-216:
  \<^verbatim>\<open>
  if (base64Audio && outputAudioContextRef.current) {
    setIsProcessing(false);
    const ctx = outputAudioContextRef.current;
    nextStartTimeRef.current = Math.max(nextStartTimeRef.current, ctx.currentTime);
    const buffer = await decodeAudioData(decode(base64Audio), ctx, 24000, 1);
    const source = ctx.createBufferSource();
    source.buffer = buffer;
    source.connect(ctx.destination);
    if (mixerRef.current) { source.connect(mixerRef.current); }
    source.onended = () => activeSourcesRef.current.delete(source);
    source.start(nextStartTimeRef.current);
    nextStartTimeRef.current += buffer.duration;
    activeSourcesRef.current.add(source);
  }
  \<close>
  \<^verbatim>\<open>decode\<close> and \<^verbatim>\<open>decodeAudioData\<close> are imported from a file that is not part of the
  sources. The argument \<open>decodeAudioData\<close> stands for both: it gives the duration of the
  buffer decoded from the payload, or \<open>None\<close> when decoding fails.
\<close>

definition scheduleAudio ::
  "(jsstring \<Rightarrow> 't option) \<Rightarrow> 't \<Rightarrow> LiveServerMessage \<Rightarrow> ('t::{linorder,plus}) session
     \<Rightarrow> 't session outcome" where
  "scheduleAudio decodeAudioData ctx_currentTime message s =
     (case base64Audio message of
        None \<Rightarrow> Returned s
      | Some payload \<Rightarrow>
          if payload \<noteq> [] \<and> outputAudioContextRef s then
            let s1 = setIsProcessing False s;
                s2 = writeNextStartTime (max (nextStartTimeRef s1) ctx_currentTime) s1
            in (case decodeAudioData payload of
                  None \<Rightarrow> Threw s2
                | Some duration \<Rightarrow>
                    let source = nextSourceId s2;
                        s3 = s2\<lparr> nextSourceId := source + 1 \<rparr>;
                        s4 = emit (SourceStart source (nextStartTimeRef s3)) s3;
                        s5 = writeNextStartTime (nextStartTimeRef s4 + duration) s4
                    in Returned (addSource source s5))
          else Returned s)"

text \<open>
  \<^verbatim>\<open>part_001\<close>, lines 182-199, differs in the payload it picks and in
  \<^verbatim>\<open>source.connect(mixerRef.current!)\<close>, which raises a \<^verbatim>\<open>TypeError\<close> when the mixer
  reference is \<^verbatim>\<open>null\<close>.
\<close>

definition scheduleAudio_p1 ::
  "(jsstring \<Rightarrow> 't option) \<Rightarrow> 't \<Rightarrow> LiveServerMessage \<Rightarrow> ('t::{linorder,plus}) session
     \<Rightarrow> 't session outcome" where
  "scheduleAudio_p1 decodeAudioData ctx_currentTime message s =
     (case base64Audio_p1 message of
        None \<Rightarrow> Returned s
      | Some payload \<Rightarrow>
          if payload \<noteq> [] \<and> outputAudioContextRef s then
            let s1 = setIsProcessing False s;
                s2 = writeNextStartTime (max (nextStartTimeRef s1) ctx_currentTime) s1
            in (case decodeAudioData payload of
                  None \<Rightarrow> Threw s2
                | Some duration \<Rightarrow>
                    let source = nextSourceId s2;
                        s3 = s2\<lparr> nextSourceId := source + 1 \<rparr>
                    in if \<not> mixerRef s3 then Threw s3
                       else
                         let s4 = emit (SourceStart source (nextStartTimeRef s3)) s3;
                             s5 = writeNextStartTime (nextStartTimeRef s4 + duration) s4
                         in Returned (addSource source s5))
          else Returned s)"

text \<open>
  The rest of the handler is the same in both files (\<^verbatim>\<open>part_000\<close> lines 218-239,
  \<^verbatim>\<open>part_001\<close> lines 201-222):
  \<^verbatim>\<open>
  if (message.serverContent?.interrupted) {
    activeSourcesRef.current.forEach(s => { try { s.stop(); } catch(e) {} });
    activeSourcesRef.current.clear();
    nextStartTimeRef.current = 0;
    setIsProcessing(false);
  }
  if (message.serverContent?.inputTranscription) {
    transcriptionBufferRef.current.user += message.serverContent.inputTranscription.text;
    setIsProcessing(true);
  }
  if (message.serverContent?.outputTranscription) {
    transcriptionBufferRef.current.agent += message.serverContent.outputTranscription.text;
  }
  if (message.serverContent?.turnComplete) {
    const userText = transcriptionBufferRef.current.user.trim();
    const agentText = transcriptionBufferRef.current.agent.trim();
    if (userText) setTranscriptions(prev => [...prev, { type: 'user', text: userText, timestamp: new Date() }]);
    if (agentText) setTranscriptions(prev => [...prev, { type: 'agent', text: agentText, timestamp: new Date() }]);
    transcriptionBufferRef.current = { user: '', agent: '' };
    setIsProcessing(false);
  }
  \<close>
\<close>

definition onInterrupted :: "('t::zero) session \<Rightarrow> 't session" where
  "onInterrupted s =
     (let s1 = stopSources s;
          s2 = writeNextStartTime 0 s1
      in setIsProcessing False s2)"

definition onInputTranscription :: "jsstring \<Rightarrow> 't session \<Rightarrow> 't session" where
  "onInputTranscription text s =
     (let buffer = transcriptionBufferRef s;
          s1 = s\<lparr> transcriptionBufferRef := buffer\<lparr> user := user buffer @ text \<rparr> \<rparr>
      in setIsProcessing True s1)"

definition onOutputTranscription :: "jsstring \<Rightarrow> 't session \<Rightarrow> 't session" where
  "onOutputTranscription text s =
     (let buffer = transcriptionBufferRef s
      in s\<lparr> transcriptionBufferRef := buffer\<lparr> agent := agent buffer @ text \<rparr> \<rparr>)"

definition onTurnComplete :: "nat \<Rightarrow> nat \<Rightarrow> 't session \<Rightarrow> 't session" where
  "onTurnComplete date_user date_agent s =
     (let userText = trim (user (transcriptionBufferRef s));
          agentText = trim (agent (transcriptionBufferRef s));
          s1 = (if userText \<noteq> []
                then setTranscriptions
                       \<lparr> entry_type = User, entry_text = userText, entry_timestamp = date_user \<rparr> s
                else s);
          s2 = (if agentText \<noteq> []
                then setTranscriptions
                       \<lparr> entry_type = Agent, entry_text = agentText, entry_timestamp = date_agent \<rparr> s1
                else s1);
          s3 = s2\<lparr> transcriptionBufferRef := \<lparr> user = [], agent = [] \<rparr> \<rparr>
      in setIsProcessing False s3)"

definition afterAudio :: "'t env \<Rightarrow> LiveServerMessage \<Rightarrow> ('t::zero) session \<Rightarrow> 't session" where
  "afterAudio e message s =
     (let s1 = (if interrupted message then onInterrupted s else s);
          s2 = (case inputTranscription message of
                  None \<Rightarrow> s1 | Some text \<Rightarrow> onInputTranscription text s1);
          s3 = (case outputTranscription message of
                  None \<Rightarrow> s2 | Some text \<Rightarrow> onOutputTranscription text s2)
      in if turnComplete message then onTurnComplete (newDate_user e) (newDate_agent e) s3
         else s3)"

definition onmessage ::
  "(jsstring \<Rightarrow> 't option) \<Rightarrow> 't env \<Rightarrow> LiveServerMessage \<Rightarrow> ('t::{linorder,plus,zero}) session
     \<Rightarrow> 't session outcome" where
  "onmessage decodeAudioData e message s =
     (case scheduleAudio decodeAudioData (currentTime e) message s of
        Threw s' \<Rightarrow> Threw s'
      | Returned s' \<Rightarrow> Returned (afterAudio e message s'))"

definition onmessage_p1 ::
  "(jsstring \<Rightarrow> 't option) \<Rightarrow> 't env \<Rightarrow> LiveServerMessage \<Rightarrow> ('t::{linorder,plus,zero}) session
     \<Rightarrow> 't session outcome" where
  "onmessage_p1 decodeAudioData e message s =
     (case scheduleAudio_p1 decodeAudioData (currentTime e) message s of
        Threw s' \<Rightarrow> Threw s'
      | Returned s' \<Rightarrow> Returned (afterAudio e message s'))"

text \<open>
  Messages are handled one after the other, in arrival order; a handler that ended in a
  rejection leaves its writes behind and the next message is handled from there.
\<close>

fun run ::
  "(jsstring \<Rightarrow> 't option) \<Rightarrow> (LiveServerMessage \<times> 't env) list
     \<Rightarrow> ('t::{linorder,plus,zero}) session \<Rightarrow> 't session" where
  "run decodeAudioData [] s = s"
| "run decodeAudioData ((message, e) # rest) s =
     run decodeAudioData rest (state_of (onmessage decodeAudioData e message s))"

text \<open>The times given to \<^verbatim>\<open>source.start\<close>, in the order of the calls.\<close>

fun startTimes :: "'t action list \<Rightarrow> 't list" where
  "startTimes [] = []"
| "startTimes (SourceStart source t # as) = t # startTimes as"
| "startTimes (a # as) = startTimes as"

section \<open>Notions used to state the properties\<close>

text \<open>
  The duration of the chunk a message carries: its payload, as \<^verbatim>\<open>part_000\<close> picks it,
  decoded. A message is decodable when it carries no payload or one that decodes, so
  that its handler is not ended by a rejection.
\<close>

definition chunkDuration :: "(jsstring \<Rightarrow> 't option) \<Rightarrow> LiveServerMessage \<Rightarrow> 't option" where
  "chunkDuration decodeAudioData message =
     (case base64Audio message of None \<Rightarrow> None | Some payload \<Rightarrow> decodeAudioData payload)"




section \<open>Concrete sessions and messages\<close>

text \<open>
  A call over one microphone track, started while not muted, with the connection
  established; then the same call after one chunk of one second has been scheduled.
  Times are rational numbers here.
\<close>

definition connected :: "rat session" where
  "connected = sessionFulfilled (onopen (handleStart (Some [0]) init))"

definition connected_p1 :: "rat session" where
  "connected_p1 = sessionFulfilled (onopen_p1 (handleStart_p1 (Some [0]) init))"

definition oneSecond :: "jsstring \<Rightarrow> rat option" where
  "oneSecond payload = Some 1"

definition emptyMessage :: LiveServerMessage where
  "emptyMessage = \<lparr> parts = [], interrupted = False, inputTranscription = None,
                    outputTranscription = None, turnComplete = False \<rparr>"

definition audioMessage :: LiveServerMessage where
  "audioMessage = emptyMessage\<lparr> parts := [Part (Some (InlineData (Some (js ''AAAA''))))] \<rparr>"

definition atTime :: "rat \<Rightarrow> rat env" where
  "atTime t = \<lparr> currentTime = t, newDate_user = 1000, newDate_agent = 1001 \<rparr>"

definition playing :: "rat session" where
  "playing = state_of (onmessage oneSecond (atTime 0) audioMessage connected)"

definition playing_p1 :: "rat session" where
  "playing_p1 = state_of (onmessage_p1 oneSecond (atTime 0) audioMessage connected_p1)"

definition threeChunks :: "(LiveServerMessage \<times> rat env) list" where
  "threeChunks = [(audioMessage, atTime 0), (audioMessage, atTime 0), (audioMessage, atTime 0)]"






text \<open>
  The first call is muted and then stopped; half a second later the guard is cleared and
  a second call is started, which finds the state still muted.
\<close>

definition restartedMuted :: "rat session" where
  "restartedMuted =
     sessionFulfilled (onopen (handleStart (Some [1])
       (closingTimeout (handleStop False (toggleMute connected)))))"

section \<open>Capture conversion\<close>

lemma truncate_bounds:
  assumes "- 32768 \<le> x" and "x < 32768"
  shows "- 32768 \<le> truncateNumber x \<and> truncateNumber x \<le> 32767"
proof (cases "x < 0")
  case True
  then have "truncateNumber x = \<lceil>x\<rceil>" by (simp add: truncateNumber_def)
  moreover have "- 32768 \<le> \<lceil>x\<rceil>" using assms(1) by (simp add: le_ceiling_iff)
  moreover have "\<lceil>x\<rceil> \<le> 0" using True by (simp add: ceiling_le_iff)
  ultimately show ?thesis by simp
next
  case False
  then have "truncateNumber x = \<lfloor>x\<rfloor>" by (simp add: truncateNumber_def)
  moreover have "0 \<le> \<lfloor>x\<rfloor>" using False by simp
  moreover have "\<lfloor>x\<rfloor> < 32768" using assms(2) by (simp add: floor_less_iff)
  ultimately show ?thesis by simp
qed

lemma ToInt16_no_wrap:
  assumes "- 32768 \<le> n" and "n \<le> (32767::int)"
  shows "(let int16bit = n mod 65536 in if int16bit \<ge> 32768 then int16bit - 65536 else int16bit) = n"
proof (cases "n < 0")
  case True
  have "(n + 65536) mod 65536 = n + 65536"
    using assms True by (intro mod_pos_pos_trivial) auto
  then have "n mod 65536 = n + 65536" by simp
  then show ?thesis using assms True by (simp add: Let_def)
next
  case False
  then have "n mod 65536 = n" using assms by simp
  then show ?thesis using assms by (simp add: Let_def)
qed

lemma sampleToInt16_in_range:
  assumes "- 1 \<le> q" and "q < 1"
  shows "sampleToInt16 (Finite q) = truncateNumber (q * 32768)"
    and "- 32768 \<le> sampleToInt16 (Finite q)" and "sampleToInt16 (Finite q) \<le> 32767"
proof -
  have b: "- 32768 \<le> q * 32768" "q * 32768 < 32768" using assms by auto
  note t = truncate_bounds [OF b]
  from t ToInt16_no_wrap [of "truncateNumber (q * 32768)"]
  show e: "sampleToInt16 (Finite q) = truncateNumber (q * 32768)"
    by (simp add: sampleToInt16_def ToInt16_def times32768_def)
  from t e show "- 32768 \<le> sampleToInt16 (Finite q)" "sampleToInt16 (Finite q) \<le> 32767"
    by simp_all
qed

text \<open>
  C3 (as amended). Every sample \<open>q\<close> of a captured frame with \<open>-1 \<le> q < 1\<close> is converted
  to \<open>q * 32768\<close> with its fraction cut off towards zero (not rounded), and the result
  lies in the int16 range, so that nothing wraps; \<open>-1.0\<close> gives \<open>-32768\<close> and \<open>0.0\<close>
  gives \<open>0\<close>.
\<close>

theorem c3_capture_conversion:
  assumes "\<forall>q \<in> set frame. - 1 \<le> q \<and> q < 1"
  shows "convertFrame (map Finite frame) = map (\<lambda>q. truncateNumber (q * 32768)) frame
       \<and> (\<forall>n \<in> set (convertFrame (map Finite frame)). - 32768 \<le> n \<and> n \<le> 32767)
       \<and> sampleToInt16 (Finite (- 1)) = - 32768
       \<and> sampleToInt16 (Finite 0) = 0"
proof -
  have a: "convertFrame (map Finite frame) = map (\<lambda>q. truncateNumber (q * 32768)) frame"
    using assms by (simp add: convertFrame_def sampleToInt16_in_range(1))
  have b: "\<forall>n \<in> set (convertFrame (map Finite frame)). - 32768 \<le> n \<and> n \<le> 32767"
    using assms by (auto simp: convertFrame_def sampleToInt16_in_range(2,3))
  have c: "sampleToInt16 (Finite (- 1)) = - 32768" "sampleToInt16 (Finite 0) = 0"
    by (simp_all add: sampleToInt16_def ToInt16_def times32768_def truncateNumber_def)
  from a b c show ?thesis by simp
qed

theorem c3_capture_conversion_witness:
  "convertFrame (map Finite [- 1, 0, 1 / 2, - 3 / 65536, 32767 / 32768])
     = [- 32768, 0, 16384, - 1, 32767]
 \<and> sampleToInt16 (Finite (- 1)) = - 32768
 \<and> sampleToInt16 (Finite 0) = 0"
proof -
  have h: "\<forall>q \<in> set [- 1, 0, 1 / 2, - 3 / 65536, 32767 / 32768 :: rat]. - 1 \<le> q \<and> q < 1"
    by simp
  have v: "map (\<lambda>q. truncateNumber (q * 32768)) [- 1, 0, 1 / 2, - 3 / 65536, 32767 / 32768 :: rat]
             = [- 32768, 0, 16384, - 1, 32767]"
    by code_simp
  from c3_capture_conversion [OF h] v show ?thesis by simp
qed

text \<open>
  The conversion is not \<open>round(sample * 32768)\<close> clamped: the sample \<open>1.0\<close> wraps to
  \<open>-32768\<close> where the clamp gives \<open>32767\<close>, and the sample \<open>3/65536\<close>, whose product
  is \<open>1.5\<close>, gives \<open>1\<close> where rounding gives \<open>2\<close>.
\<close>

theorem c3_capture_conversion_counterexample:
  "sampleToInt16 (Finite 1) = - 32768 \<and> spec_sampleToInt16 1 = 32767
 \<and> sampleToInt16 (Finite (3 / 65536)) = 1 \<and> spec_sampleToInt16 (3 / 65536) = 2"
  by code_simp

section \<open>Playback scheduling\<close>

lemmas setter_defs =
  emit_def setStatus_def setIsProcessing_def setErrorMessage_def setHasAudioData_def
  setIsMuted_def setTranscriptions_def writeNextStartTime_def

lemma startTimes_append: "startTimes (xs @ ys) = startTimes xs @ startTimes ys"
  by (induction xs rule: startTimes.induct) simp_all

lemma startTimes_SourceStop [simp]: "startTimes (map SourceStop xs) = []"
  by (induction xs) simp_all

lemma base64Audio_nonempty: "base64Audio m = Some b \<Longrightarrow> b \<noteq> []"
  by (auto simp: base64Audio_def truthy_def find_Some_iff split: option.splits)

lemma afterAudio_plain:
  assumes "\<not> interrupted m"
  shows "nextStartTimeRef (afterAudio e m s) = nextStartTimeRef s"
    and "outputAudioContextRef (afterAudio e m s) = outputAudioContextRef s"
    and "startTimes (trace (afterAudio e m s)) = startTimes (trace s)"
  using assms
  by (simp_all add: afterAudio_def onInputTranscription_def onOutputTranscription_def
        onTurnComplete_def setter_defs Let_def startTimes_append split: option.splits)



lemma scheduleAudio_chunk:
  assumes "outputAudioContextRef s" and "chunkDuration dec m = Some d"
  shows "\<exists>s'. scheduleAudio dec t m s = Returned s'
            \<and> nextStartTimeRef s' = max (nextStartTimeRef s) t + d
            \<and> outputAudioContextRef s'
            \<and> startTimes (trace s') = startTimes (trace s) @ [max (nextStartTimeRef s) t]"
proof -
  from assms(2) obtain b where b: "base64Audio m = Some b" "dec b = Some d"
    by (auto simp: chunkDuration_def split: option.splits)
  have "b \<noteq> []" using b(1) by (rule base64Audio_nonempty)
  with assms(1) b show ?thesis
    by (simp add: scheduleAudio_def addSource_def setter_defs Let_def startTimes_append)
qed



lemma onmessage_chunk:
  assumes "outputAudioContextRef s" and "chunkDuration dec m = Some d" and "\<not> interrupted m"
  shows "nextStartTimeRef (state_of (onmessage dec e m s)) = max (nextStartTimeRef s) (currentTime e) + d"
    and "outputAudioContextRef (state_of (onmessage dec e m s))"
    and "startTimes (trace (state_of (onmessage dec e m s)))
           = startTimes (trace s) @ [max (nextStartTimeRef s) (currentTime e)]"
proof -
  from scheduleAudio_chunk [OF assms(1,2), of "currentTime e"] obtain s' where
    s': "scheduleAudio dec (currentTime e) m s = Returned s'"
        "nextStartTimeRef s' = max (nextStartTimeRef s) (currentTime e) + d"
        "outputAudioContextRef s'"
        "startTimes (trace s') = startTimes (trace s) @ [max (nextStartTimeRef s) (currentTime e)]"
    by blast
  show "nextStartTimeRef (state_of (onmessage dec e m s)) = max (nextStartTimeRef s) (currentTime e) + d"
    using s' assms(3) by (simp add: onmessage_def state_of_def afterAudio_plain)
  show "outputAudioContextRef (state_of (onmessage dec e m s))"
    using s' assms(3) by (simp add: onmessage_def state_of_def afterAudio_plain)
  show "startTimes (trace (state_of (onmessage dec e m s)))
           = startTimes (trace s) @ [max (nextStartTimeRef s) (currentTime e)]"
    using s' assms(3) by (simp add: onmessage_def state_of_def afterAudio_plain)
qed





lemma run_append: "run dec (xs @ ys) s = run dec ys (run dec xs s)"
  by (induction dec xs s rule: run.induct) simp_all

lemma run_chunks_ctx:
  assumes "outputAudioContextRef s" and "\<forall>(m, e) \<in> set msgs. chunkDuration dec m \<noteq> None \<and> \<not> interrupted m"
  shows "outputAudioContextRef (run dec msgs s)"
  using assms
proof (induction dec msgs s rule: run.induct)
  case (1 dec s)
  then show ?case by simp
next
  case (2 dec m e rest s)
  then obtain d where "chunkDuration dec m = Some d" "\<not> interrupted m" by auto
  with 2 show ?case by (simp add: onmessage_chunk)
qed

lemma run_chunks_starts:
  assumes "outputAudioContextRef s" and "\<forall>(m, e) \<in> set msgs. chunkDuration dec m \<noteq> None \<and> \<not> interrupted m"
  shows "startTimes (trace (run dec msgs s)) =
           startTimes (trace s) @
           map (\<lambda>k. max (nextStartTimeRef (run dec (take k msgs) s)) (currentTime (snd (msgs ! k))))
               [0..<length msgs]"
  using assms
proof (induction dec msgs s rule: run.induct)
  case (1 dec s)
  then show ?case by simp
next
  case (2 dec m e rest s)
  then obtain d where d: "chunkDuration dec m = Some d" "\<not> interrupted m" by auto
  let ?s1 = "state_of (onmessage dec e m s)"
  have ctx: "outputAudioContextRef ?s1" using 2 d by (simp add: onmessage_chunk)
  have rest: "\<forall>(m, e) \<in> set rest. chunkDuration dec m \<noteq> None \<and> \<not> interrupted m"
    using 2(3) by simp
  have "startTimes (trace (run dec rest ?s1)) =
           startTimes (trace ?s1) @
           map (\<lambda>k. max (nextStartTimeRef (run dec (take k rest) ?s1)) (currentTime (snd (rest ! k))))
               [0..<length rest]"
    using 2(1) [OF ctx rest] .
  moreover have "startTimes (trace ?s1) = startTimes (trace s) @ [max (nextStartTimeRef s) (currentTime e)]"
    using 2(2) d by (simp add: onmessage_chunk)
  ultimately show ?case
    by (simp add: upt_conv_Cons map_Suc_upt [symmetric] del: upt_Suc)
qed

lemma audioMessage_chunk: "chunkDuration oneSecond audioMessage = Some 1"
  by code_simp

lemma connected_ctx: "outputAudioContextRef connected"
  by code_simp


lemma playing_fields:
  "\<not> isClosingRef playing" "sessionPromiseRef playing = Some Fulfilled"
  "recorderRef playing = Some Recording" "processorNodeRef playing = Some \<lparr> closure_isMuted = False \<rparr>"
  "sourceNodeRef playing" "micToMixerNodeRef playing" "streamRef playing = Some [0]"
  "activeSourcesRef playing = [0]"
  by code_simp+

lemma playing_p1_fields:
  "sessionPromiseRef playing_p1 = Some Fulfilled"
  "recorderRef playing_p1 = Some Recording" "processorNodeRef playing_p1 = Some \<lparr> closure_isMuted = False \<rparr>"
  "sourceNodeRef playing_p1" "streamRef playing_p1 = Some [0]"
  "activeSourcesRef playing_p1 = [0]"
  by code_simp+

lemma connected_open: "\<not> isClosingRef connected"
  by code_simp

text \<open>
  C1. Let a sequence of messages arrive, each carrying an audio chunk that decodes and
  none carrying the interrupted flag, with nothing else happening in between. Then the
  time given to \<^verbatim>\<open>source.start\<close> for chunk \<open>i\<close> is the maximum of the playback clock
  left by the chunks before it and of \<^verbatim>\<open>currentTime\<close> at its arrival; the clock after
  chunk \<open>i\<close> is that start plus the duration of chunk \<open>i\<close>; and chunk \<open>i\<close> does not start
  before the end of chunk \<open>i - 1\<close>.
\<close>

theorem c1_gapless_schedule:
  fixes s :: "('t::{linorder,plus,zero}) session"
  assumes "outputAudioContextRef s"
    and "\<forall>(message, e) \<in> set msgs. chunkDuration dec message \<noteq> None \<and> \<not> interrupted message"
    and "i < length msgs"
  defines "before k \<equiv> run dec (take k msgs) s"
    and "start k \<equiv> startTimes (trace (run dec msgs s)) ! (length (startTimes (trace s)) + k)"
    and "duration k \<equiv> the (chunkDuration dec (fst (msgs ! k)))"
  shows "start i = max (nextStartTimeRef (before i)) (currentTime (snd (msgs ! i)))
       \<and> nextStartTimeRef (before (Suc i)) = start i + duration i
       \<and> (0 < i \<longrightarrow> start (i - 1) + duration (i - 1) \<le> start i)"
proof -
  have st: "start k = max (nextStartTimeRef (before k)) (currentTime (snd (msgs ! k)))"
    if "k < length msgs" for k
    using that by (simp add: start_def before_def run_chunks_starts [OF assms(1,2)] nth_append)
  have nx: "nextStartTimeRef (before (Suc k)) = start k + duration k" if k: "k < length msgs" for k
  proof -
    obtain m e where me: "msgs ! k = (m, e)" by (cases "msgs ! k")
    have "(m, e) \<in> set msgs" using k me by (metis nth_mem)
    with assms(2) obtain d where d: "chunkDuration dec m = Some d" "\<not> interrupted m" by auto
    have pre: "\<forall>(message, e) \<in> set (take k msgs). chunkDuration dec message \<noteq> None \<and> \<not> interrupted message"
      using assms(2) by (meson in_set_takeD)
    have ctx: "outputAudioContextRef (before k)"
      unfolding before_def using assms(1) pre by (rule run_chunks_ctx)
    have "before (Suc k) = state_of (onmessage dec e m (before k))"
      using k me by (simp add: before_def take_Suc_conv_app_nth run_append)
    then show ?thesis using onmessage_chunk(1) [OF ctx d] st [OF k] d me
      by (simp add: duration_def)
  qed
  have "start (i - 1) + duration (i - 1) \<le> start i" if "0 < i"
  proof -
    have "i - 1 < length msgs" using assms(3) by simp
    from nx [OF this] that have "nextStartTimeRef (before i) = start (i - 1) + duration (i - 1)" by simp
    then show ?thesis using st [OF assms(3)] by simp
  qed
  with st [OF assms(3)] nx [OF assms(3)] show ?thesis by blast
qed

text \<open>
  The scenario of three chunks of one second each, all arriving at time 0 on a connected
  session: the starts are 0, 1 and 2 and the clock ends at 3.
\<close>

theorem c1_gapless_schedule_witness:
  "outputAudioContextRef connected
 \<and> chunkDuration oneSecond audioMessage = Some 1
 \<and> \<not> interrupted audioMessage
 \<and> 2 < length threeChunks
 \<and> startTimes (trace (run oneSecond threeChunks connected)) = [0, 1, 2]
 \<and> nextStartTimeRef (run oneSecond threeChunks connected) = 3
 \<and> startTimes (trace (run oneSecond threeChunks connected))
       ! (length (startTimes (trace connected)) + 2)
     = max (nextStartTimeRef (run oneSecond (take 2 threeChunks) connected))
           (currentTime (snd (threeChunks ! 2)))
 \<and> nextStartTimeRef (run oneSecond (take (Suc 2) threeChunks) connected)
     = startTimes (trace (run oneSecond threeChunks connected))
         ! (length (startTimes (trace connected)) + 2)
       + the (chunkDuration oneSecond (fst (threeChunks ! 2)))
 \<and> startTimes (trace (run oneSecond threeChunks connected))
         ! (length (startTimes (trace connected)) + (2 - 1))
       + the (chunkDuration oneSecond (fst (threeChunks ! (2 - 1))))
     \<le> startTimes (trace (run oneSecond threeChunks connected))
         ! (length (startTimes (trace connected)) + 2)"
proof -
  have h1: "outputAudioContextRef connected" by (rule connected_ctx)
  have a1: "chunkDuration oneSecond audioMessage = Some 1" by (rule audioMessage_chunk)
  have a2: "\<not> interrupted audioMessage" by (simp add: audioMessage_def emptyMessage_def)
  have h2: "\<forall>(message, e) \<in> set threeChunks.
              chunkDuration oneSecond message \<noteq> None \<and> \<not> interrupted message"
    using a1 a2 by (simp add: threeChunks_def)
  have h3: "2 < length threeChunks" by (simp add: threeChunks_def)
  have v1: "startTimes (trace (run oneSecond threeChunks connected)) = [0, 1, 2]" by code_simp
  have v2: "nextStartTimeRef (run oneSecond threeChunks connected) = 3" by code_simp
  note g = c1_gapless_schedule [OF h1 h2 h3]
  have p: "0 < (2::nat)" by simp
  from g have c1: "startTimes (trace (run oneSecond threeChunks connected))
       ! (length (startTimes (trace connected)) + 2)
     = max (nextStartTimeRef (run oneSecond (take 2 threeChunks) connected))
           (currentTime (snd (threeChunks ! 2)))" by (rule conjunct1)
  from g have c2: "nextStartTimeRef (run oneSecond (take (Suc 2) threeChunks) connected)
     = startTimes (trace (run oneSecond threeChunks connected))
         ! (length (startTimes (trace connected)) + 2)
       + the (chunkDuration oneSecond (fst (threeChunks ! 2)))"
    by (rule conjunct1 [OF conjunct2])
  from g p have c3: "startTimes (trace (run oneSecond threeChunks connected))
         ! (length (startTimes (trace connected)) + (2 - 1))
       + the (chunkDuration oneSecond (fst (threeChunks ! (2 - 1))))
     \<le> startTimes (trace (run oneSecond threeChunks connected))
         ! (length (startTimes (trace connected)) + 2)"
    by (rule mp [OF conjunct2 [OF conjunct2]])
  from h1 a1 a2 h3 v1 v2 c1 c2 c3 show ?thesis by (intro conjI)
qed



section \<open>Transcript aggregation\<close>











section \<open>Teardown\<close>

text \<open>Each teardown step, and then each of the two stop handlers, as one update of the state.\<close>

lemma stopRecorder_upd:
  "stopRecorder s =
     s\<lparr> recorderRef := (if recorderRef s = Some Recording then Some Inactive else recorderRef s),
        trace := trace s @ (if recorderRef s = Some Recording then [RecorderStop] else []) \<rparr>"
  by (simp add: stopRecorder_def emit_def)

lemma disconnectProcessor_upd:
  "disconnectProcessor s =
     s\<lparr> processorNodeRef := None,
        trace := trace s @ (if processorNodeRef s \<noteq> None then [Disconnect ProcessorNode] else []) \<rparr>"
  by (cases s) (simp add: disconnectProcessor_def emit_def)

lemma disconnectSource_upd:
  "disconnectSource s =
     s\<lparr> sourceNodeRef := False,
        trace := trace s @ (if sourceNodeRef s then [Disconnect SourceNode] else []) \<rparr>"
  by (cases s) (simp add: disconnectSource_def emit_def)

lemma disconnectMicToMixer_upd:
  "disconnectMicToMixer s =
     s\<lparr> micToMixerNodeRef := False,
        trace := trace s @ (if micToMixerNodeRef s then [Disconnect MicToMixerNode] else []) \<rparr>"
  by (cases s) (simp add: disconnectMicToMixer_def emit_def)

lemma stopTracks_upd:
  "stopTracks s =
     s\<lparr> streamRef := None,
        trace := trace s @ (case streamRef s of None \<Rightarrow> [] | Some tracks \<Rightarrow> map TrackStop tracks) \<rparr>"
  by (cases s) (simp add: stopTracks_def split: option.splits)

lemma promiseThen_close_upd:
  "promiseThen p CloseCallback s =
     s\<lparr> trace := trace s @ (case p of Fulfilled \<Rightarrow> [SessionClose]
                                  | Pending \<Rightarrow> [Deferred CloseCallback]
                                  | Rejected \<Rightarrow> []) \<rparr>"
  by (cases p) (simp_all add: promiseThen_def runCallback_def emit_def)

lemmas teardown_upds =
  stopRecorder_upd disconnectProcessor_upd disconnectSource_upd disconnectMicToMixer_upd
  stopTracks_upd stopSources_def promiseThen_close_upd

lemma handleStop_closing: "isClosingRef s \<Longrightarrow> handleStop e s = s"
  by (simp add: handleStop_def)

lemma handleStop_open:
  assumes "\<not> isClosingRef s"
  shows "handleStop e s =
     s\<lparr> isClosingRef := True,
        status := (if e then ERROR else IDLE),
        sessionPromiseRef := None,
        recorderRef := (if recorderRef s = Some Recording then Some Inactive else recorderRef s),
        processorNodeRef := None,
        sourceNodeRef := False,
        micToMixerNodeRef := False,
        streamRef := None,
        activeSourcesRef := [],
        nextStartTimeRef := 0,
        isProcessing := False,
        trace := trace s
          @ [SetStatus (if e then ERROR else IDLE)]
          @ (if recorderRef s = Some Recording then [RecorderStop] else [])
          @ (if processorNodeRef s \<noteq> None then [Disconnect ProcessorNode] else [])
          @ (if sourceNodeRef s then [Disconnect SourceNode] else [])
          @ (if micToMixerNodeRef s then [Disconnect MicToMixerNode] else [])
          @ (case streamRef s of None \<Rightarrow> [] | Some tracks \<Rightarrow> map TrackStop tracks)
          @ map SourceStop (activeSourcesRef s)
          @ [NextStartWrite 0, SetIsProcessing False]
          @ (case sessionPromiseRef s of
               None \<Rightarrow> []
             | Some Fulfilled \<Rightarrow> [SessionClose]
             | Some Pending \<Rightarrow> [Deferred CloseCallback]
             | Some Rejected \<Rightarrow> []) \<rparr>"
proof (cases "sessionPromiseRef s")
  case None
  with assms show ?thesis
    by (simp add: handleStop_def Let_def teardown_upds setter_defs)
next
  case (Some p)
  with assms show ?thesis
    by (cases p) (simp_all add: handleStop_def Let_def teardown_upds setter_defs)
qed

lemma handleStop_p1_upd:
  "handleStop_p1 s =
     s\<lparr> sessionPromiseRef := None,
        recorderRef := (if recorderRef s = Some Recording then Some Inactive else recorderRef s),
        processorNodeRef := None,
        sourceNodeRef := False,
        streamRef := None,
        activeSourcesRef := [],
        nextStartTimeRef := 0,
        status := IDLE,
        isProcessing := False,
        trace := trace s
          @ (if recorderRef s = Some Recording then [RecorderStop] else [])
          @ (if processorNodeRef s \<noteq> None then [Disconnect ProcessorNode] else [])
          @ (if sourceNodeRef s then [Disconnect SourceNode] else [])
          @ (case streamRef s of None \<Rightarrow> [] | Some tracks \<Rightarrow> map TrackStop tracks)
          @ map SourceStop (activeSourcesRef s)
          @ [NextStartWrite 0, SetStatus IDLE, SetIsProcessing False]
          @ (case sessionPromiseRef s of
               None \<Rightarrow> []
             | Some Fulfilled \<Rightarrow> [SessionClose]
             | Some Pending \<Rightarrow> [Deferred CloseCallback]
             | Some Rejected \<Rightarrow> []) \<rparr>"
proof (cases "sessionPromiseRef s")
  case None
  then show ?thesis
    by (simp add: handleStop_p1_def Let_def teardown_upds setter_defs)
next
  case (Some p)
  then show ?thesis
    by (cases p) (simp_all add: handleStop_p1_def Let_def teardown_upds setter_defs)
qed

lemma handleStop_p1_again:
  "trace (handleStop_p1 (handleStop_p1 s)) =
     trace (handleStop_p1 s) @ [NextStartWrite 0, SetStatus IDLE, SetIsProcessing False]"
  by (simp add: handleStop_p1_upd)

text \<open>
  C2 (as amended). On a running session of \<^verbatim>\<open>part_000\<close> (not closing, connection
  established, recorder recording, nodes and stream held) two stops in immediate
  succession, or a stop followed by the remote-close callback, tear the session down once:
  the first sets the closing guard and the second returns at the guard without changing
  anything, so that over both the connection is closed, the recorder stopped, each node
  disconnected, each track and each active source stopped and the clock reset exactly
  once. \<^verbatim>\<open>part_001\<close> has no closing guard: there the second stop runs the whole body
  again; it releases nothing a second time, since every handle was cleared or is inactive,
  but it repeats the clock reset and the two state setter calls.
\<close>

theorem c2_stop_twice:
  fixes s s' :: "('t::zero) session"
  assumes "\<not> isClosingRef s" and "sessionPromiseRef s = Some Fulfilled"
    and "recorderRef s = Some Recording" and "processorNodeRef s = Some processor"
    and "sourceNodeRef s" and "micToMixerNodeRef s" and "streamRef s = Some tracks"
    and "sessionPromiseRef s' = Some Fulfilled" and "recorderRef s' = Some Recording"
    and "processorNodeRef s' = Some processor'" and "sourceNodeRef s'"
    and "streamRef s' = Some tracks'"
  shows "isClosingRef (handleStop e1 s)
       \<and> handleStop e2 (handleStop e1 s) = handleStop e1 s
       \<and> onclose (handleStop e1 s) = handleStop e1 s
       \<and> trace (handleStop e2 (handleStop e1 s)) =
           trace s @ [SetStatus (if e1 then ERROR else IDLE), RecorderStop,
                      Disconnect ProcessorNode, Disconnect SourceNode, Disconnect MicToMixerNode]
           @ map TrackStop tracks @ map SourceStop (activeSourcesRef s)
           @ [NextStartWrite 0, SetIsProcessing False, SessionClose]
       \<and> trace (handleStop_p1 (handleStop_p1 s')) =
           trace s' @ [RecorderStop, Disconnect ProcessorNode, Disconnect SourceNode]
           @ map TrackStop tracks' @ map SourceStop (activeSourcesRef s')
           @ [NextStartWrite 0, SetStatus IDLE, SetIsProcessing False, SessionClose]
           @ [NextStartWrite 0, SetStatus IDLE, SetIsProcessing False]"
proof -
  have g: "isClosingRef (handleStop e1 s)"
    using assms(1) by (simp add: handleStop_open)
  have i: "handleStop e2 (handleStop e1 s) = handleStop e1 s"
    using g by (rule handleStop_closing)
  have o: "onclose (handleStop e1 s) = handleStop e1 s"
    using g by (simp add: onclose_def)
  have a: "trace (handleStop e1 s) =
           trace s @ [SetStatus (if e1 then ERROR else IDLE), RecorderStop,
                      Disconnect ProcessorNode, Disconnect SourceNode, Disconnect MicToMixerNode]
           @ map TrackStop tracks @ map SourceStop (activeSourcesRef s)
           @ [NextStartWrite 0, SetIsProcessing False, SessionClose]"
    using assms(1-7) by (simp add: handleStop_open)
  have c: "trace (handleStop_p1 (handleStop_p1 s')) =
           trace s' @ [RecorderStop, Disconnect ProcessorNode, Disconnect SourceNode]
           @ map TrackStop tracks' @ map SourceStop (activeSourcesRef s')
           @ [NextStartWrite 0, SetStatus IDLE, SetIsProcessing False, SessionClose]
           @ [NextStartWrite 0, SetStatus IDLE, SetIsProcessing False]"
    using assms(8-12) by (simp add: handleStop_p1_upd)
  from g i o a c show ?thesis by simp
qed

theorem c2_stop_twice_witness:
  "\<not> isClosingRef playing \<and> sessionPromiseRef playing = Some Fulfilled
 \<and> recorderRef playing = Some Recording
 \<and> processorNodeRef playing = Some \<lparr> closure_isMuted = False \<rparr>
 \<and> sourceNodeRef playing \<and> micToMixerNodeRef playing \<and> streamRef playing = Some [0]
 \<and> sessionPromiseRef playing_p1 = Some Fulfilled \<and> recorderRef playing_p1 = Some Recording
 \<and> processorNodeRef playing_p1 = Some \<lparr> closure_isMuted = False \<rparr>
 \<and> sourceNodeRef playing_p1 \<and> streamRef playing_p1 = Some [0]
 \<and> isClosingRef (handleStop False playing)
 \<and> handleStop False (handleStop False playing) = handleStop False playing
 \<and> onclose (handleStop False playing) = handleStop False playing
 \<and> trace (handleStop False (handleStop False playing)) =
       trace playing @ [SetStatus IDLE, RecorderStop, Disconnect ProcessorNode,
                        Disconnect SourceNode, Disconnect MicToMixerNode, TrackStop 0,
                        SourceStop 0, NextStartWrite 0, SetIsProcessing False, SessionClose]
 \<and> trace (handleStop_p1 (handleStop_p1 playing_p1)) =
       trace playing_p1 @ [RecorderStop, Disconnect ProcessorNode, Disconnect SourceNode,
                           TrackStop 0, SourceStop 0, NextStartWrite 0, SetStatus IDLE,
                           SetIsProcessing False, SessionClose,
                           NextStartWrite 0, SetStatus IDLE, SetIsProcessing False]"
  using c2_stop_twice [OF playing_fields(1-7) playing_p1_fields(1-5), of False False]
    playing_fields playing_p1_fields
  by clarsimp

text \<open>
  In \<^verbatim>\<open>part_001\<close> the second of two stops does not return at once: it resets the clock
  and calls two state setters again.
\<close>

theorem c2_stop_twice_counterexample:
  "drop (length (trace (handleStop_p1 playing_p1))) (trace (handleStop_p1 (handleStop_p1 playing_p1)))
     = [NextStartWrite 0, SetStatus IDLE, SetIsProcessing False]
   \<and> handleStop_p1 (handleStop_p1 playing_p1) \<noteq> handleStop_p1 playing_p1"
proof -
  have t: "trace (handleStop_p1 (handleStop_p1 playing_p1)) =
     trace (handleStop_p1 playing_p1) @ [NextStartWrite 0, SetStatus IDLE, SetIsProcessing False]"
    by (rule handleStop_p1_again)
  then have "trace (handleStop_p1 (handleStop_p1 playing_p1)) \<noteq> trace (handleStop_p1 playing_p1)"
    by simp
  then have "handleStop_p1 (handleStop_p1 playing_p1) \<noteq> handleStop_p1 playing_p1"
    by auto
  with t show ?thesis by simp
qed

text \<open>
  C7 (as amended). In \<^verbatim>\<open>part_000\<close>, while no teardown is in progress, the stop handler
  sets the status to ERROR when called with \<open>True\<close> and to IDLE otherwise; the error
  callback sets the message about the unstable line and stops with \<open>True\<close>, ending in
  ERROR; the close callback stops with \<open>False\<close>, ending in IDLE, and leaves the message
  alone. In \<^verbatim>\<open>part_001\<close> the stop handler has no argument and always ends in IDLE: its
  error callback sets the message about the network and stops, ending in IDLE, and so does
  its close callback, without a message.
\<close>

theorem c7_stop_status:
  fixes s s' :: "('t::zero) session"
  assumes "\<not> isClosingRef s"
  shows "status (handleStop errorOccurred s) = (if errorOccurred then ERROR else IDLE)
       \<and> onerror s = handleStop True (setErrorMessage (Some ''Line unstable. Resetting connection...'') s)
       \<and> status (onerror s) = ERROR
       \<and> errorMessage (onerror s) = Some ''Line unstable. Resetting connection...''
       \<and> onclose s = handleStop False s
       \<and> status (onclose s) = IDLE
       \<and> errorMessage (onclose s) = errorMessage s
       \<and> status (onerror_p1 s') = IDLE
       \<and> errorMessage (onerror_p1 s') = Some ''Network issue. Reconnecting...''
       \<and> status (onclose_p1 s') = IDLE
       \<and> errorMessage (onclose_p1 s') = errorMessage s'"
proof -
  have e: "\<not> isClosingRef (setErrorMessage m s)" for m
    using assms by (simp add: setter_defs)
  have "status (handleStop errorOccurred s) = (if errorOccurred then ERROR else IDLE)"
    using assms by (simp add: handleStop_open)
  moreover have "onerror s = handleStop True (setErrorMessage (Some ''Line unstable. Resetting connection...'') s)"
    using assms by (simp add: onerror_def)
  moreover have "status (onerror s) = ERROR"
    "errorMessage (onerror s) = Some ''Line unstable. Resetting connection...''"
    using assms by (simp_all add: onerror_def handleStop_open [OF e])
      (simp_all add: setter_defs)
  moreover have "onclose s = handleStop False s" "status (onclose s) = IDLE"
    "errorMessage (onclose s) = errorMessage s"
    using assms by (simp_all add: onclose_def handleStop_open)
  moreover have "status (onerror_p1 s') = IDLE"
    "errorMessage (onerror_p1 s') = Some ''Network issue. Reconnecting...''"
    "status (onclose_p1 s') = IDLE" "errorMessage (onclose_p1 s') = errorMessage s'"
    by (simp_all add: onerror_p1_def onclose_p1_def handleStop_p1_upd setter_defs)
  ultimately show ?thesis by simp
qed

theorem c7_stop_status_witness:
  "\<not> isClosingRef connected
 \<and> status (handleStop True connected) = ERROR
 \<and> status (handleStop False connected) = IDLE
 \<and> status (onerror connected) = ERROR
 \<and> errorMessage (onerror connected) = Some ''Line unstable. Resetting connection...''
 \<and> status (onclose connected) = IDLE
 \<and> errorMessage (onclose connected) = None
 \<and> status (onerror_p1 connected_p1) = IDLE
 \<and> errorMessage (onerror_p1 connected_p1) = Some ''Network issue. Reconnecting...''
 \<and> status (onclose_p1 connected_p1) = IDLE"
proof -
  have m: "errorMessage connected = None" by code_simp
  from c7_stop_status [OF connected_open, where errorOccurred = True and s' = connected_p1]
    c7_stop_status [OF connected_open, where errorOccurred = False and s' = connected_p1]
    connected_open m
  show ?thesis by simp
qed

text \<open>
  The error callback of \<^verbatim>\<open>part_001\<close> ends in IDLE, not in ERROR; and in \<^verbatim>\<open>part_000\<close>
  a stop with \<open>True\<close> that finds the guard set leaves the status as it is.
\<close>

theorem c7_stop_status_counterexample:
  "status (onerror_p1 connected_p1) = IDLE
 \<and> status (handleStop True (handleStop False connected)) = IDLE"
proof -
  have "status (onerror_p1 connected_p1) = IDLE"
    by (simp add: onerror_p1_def handleStop_p1_upd)
  moreover have "isClosingRef (handleStop False connected)"
    using connected_open by (simp add: handleStop_open)
  then have "handleStop True (handleStop False connected) = handleStop False connected"
    by (rule handleStop_closing)
  moreover have "status (handleStop False connected) = IDLE"
    using connected_open by (simp add: handleStop_open)
  ultimately show ?thesis by simp
qed

text \<open>
  C8 (as amended). When the recorder's stop handler runs, the recording is the
  concatenation of the segments captured so far, hence empty when none was captured, and
  the handler sets the ready flag in every case, also for the empty recording, by one
  setter call. Nothing else sets it: neither stop handler and not the arrival of a
  segment.
\<close>

theorem c8_recording_finalization:
  fixes s :: "('t::zero) session"
  shows "audioUrlRef (recorder_onstop s) = Some (concat (recordedChunksRef s))
       \<and> audioUrlRef (recorder_onstop (s\<lparr> recordedChunksRef := [] \<rparr>)) = Some []
       \<and> hasAudioData (recorder_onstop s)
       \<and> trace (recorder_onstop s) = trace s @ [SetHasAudioData True]
       \<and> hasAudioData (handleStop e s) = hasAudioData s
       \<and> hasAudioData (handleStop_p1 s) = hasAudioData s
       \<and> hasAudioData (recorder_ondataavailable e_data s) = hasAudioData s"
proof -
  have "hasAudioData (handleStop e s) = hasAudioData s"
    by (cases "isClosingRef s") (simp_all add: handleStop_closing handleStop_open)
  then show ?thesis
    by (simp add: recorder_onstop_def recorder_ondataavailable_def handleStop_p1_upd setter_defs
          Let_def)
qed

text \<open>
  A call is stopped before any segment with data has arrived: the recording is empty and
  the ready flag is set all the same.
\<close>

theorem c8_recording_finalization_counterexample:
  "recordedChunksRef (recorder_ondataavailable [] (handleStop False connected)) = []
 \<and> \<not> hasAudioData (recorder_ondataavailable [] (handleStop False connected))
 \<and> hasAudioData (recorder_onstop (recorder_ondataavailable [] (handleStop False connected)))
 \<and> audioUrlRef (recorder_onstop (recorder_ondataavailable [] (handleStop False connected)))
     = Some []"
  by code_simp

text \<open>
  C10. With no session: no session promise, no recorder, no audio node, no stream, no
  active source, the clock at 0 and no teardown in progress. Then a stop (in \<^verbatim>\<open>part_000\<close>
  without the error flag) does nothing but call the status and processing setters and
  write 0 to the clock: it releases nothing, leaves the clock at 0 and ends in IDLE. The
  handlers are total functions without an error branch: each call they make is either
  guarded against a missing object or made on none.
\<close>

theorem c10_stop_without_session:
  fixes s :: "('t::zero) session"
  assumes "sessionPromiseRef s = None" and "recorderRef s = None" and "processorNodeRef s = None"
    and "\<not> sourceNodeRef s" and "\<not> micToMixerNodeRef s" and "streamRef s = None"
    and "activeSourcesRef s = []" and "nextStartTimeRef s = 0" and "\<not> isClosingRef s"
  shows "trace (handleStop False s) = trace s @ [SetStatus IDLE, NextStartWrite 0, SetIsProcessing False]
       \<and> nextStartTimeRef (handleStop False s) = 0
       \<and> status (handleStop False s) = IDLE
       \<and> trace (handleStop_p1 s) = trace s @ [NextStartWrite 0, SetStatus IDLE, SetIsProcessing False]
       \<and> nextStartTimeRef (handleStop_p1 s) = 0
       \<and> status (handleStop_p1 s) = IDLE"
  using assms by (simp add: handleStop_open handleStop_p1_upd)

theorem c10_stop_without_session_witness:
  "sessionPromiseRef (init :: rat session) = None \<and> recorderRef (init :: rat session) = None
 \<and> processorNodeRef (init :: rat session) = None \<and> \<not> sourceNodeRef (init :: rat session)
 \<and> \<not> micToMixerNodeRef (init :: rat session) \<and> streamRef (init :: rat session) = None
 \<and> activeSourcesRef (init :: rat session) = [] \<and> nextStartTimeRef (init :: rat session) = 0
 \<and> \<not> isClosingRef (init :: rat session)
 \<and> trace (handleStop False (init :: rat session)) = [SetStatus IDLE, NextStartWrite 0, SetIsProcessing False]
 \<and> nextStartTimeRef (handleStop False (init :: rat session)) = 0
 \<and> status (handleStop False (init :: rat session)) = IDLE
 \<and> trace (handleStop_p1 (init :: rat session)) = [NextStartWrite 0, SetStatus IDLE, SetIsProcessing False]
 \<and> nextStartTimeRef (handleStop_p1 (init :: rat session)) = 0
 \<and> status (handleStop_p1 (init :: rat session)) = IDLE"
proof -
  have i: "sessionPromiseRef (init :: rat session) = None" "recorderRef (init :: rat session) = None"
    "processorNodeRef (init :: rat session) = None" "\<not> sourceNodeRef (init :: rat session)"
    "\<not> micToMixerNodeRef (init :: rat session)" "streamRef (init :: rat session) = None"
    "activeSourcesRef (init :: rat session) = []" "nextStartTimeRef (init :: rat session) = 0"
    "\<not> isClosingRef (init :: rat session)" "trace (init :: rat session) = []"
    by (simp_all add: init_def)
  from c10_stop_without_session [OF i(1-9)] i show ?thesis by simp
qed

section \<open>Muting\<close>

text \<open>
  C5. A call is started while not muted and connected; the mute button is then pressed,
  so that the state says muted; the next captured frame is sent all the same, in both
  files, because the handler tests the \<^verbatim>\<open>isMuted\<close> it closed over when the call
  started. In the other direction, a call started while the state says muted is connected
  and not closing, and after the button is pressed the state says not muted; the next
  frame is not sent.
\<close>

theorem c5_mute_toggle_still_sends:
  "\<not> isMuted connected
 \<and> isMuted (toggleMute connected)
 \<and> trace (audioprocess [Finite (1 / 2)] (toggleMute connected))
     = trace (toggleMute connected) @ [SendRealtimeInput (Media [16384] ''audio/pcm;rate=16000'')]
 \<and> \<not> isMuted connected_p1
 \<and> isMuted (toggleMute connected_p1)
 \<and> trace (audioprocess_p1 [Finite (1 / 2)] (toggleMute connected_p1))
     = trace (toggleMute connected_p1) @ [SendRealtimeInput (Media [16384] ''audio/pcm;rate=16000'')]
 \<and> status restartedMuted = CONNECTED
 \<and> \<not> isClosingRef restartedMuted
 \<and> sessionPromiseRef restartedMuted = Some Fulfilled
 \<and> \<not> isMuted (toggleMute restartedMuted)
 \<and> trace (audioprocess [Finite (1 / 2)] (toggleMute restartedMuted))
     = trace (toggleMute restartedMuted)"
  by code_simp

end
